theory Spec2Isabelle
  imports Main
begin

section \<open>Tabular data as pandas holds it\<close>

text \<open>
  The pipeline of \<^verbatim>\<open>etl_pipeline.py\<close> works on pandas data frames. A cell is a string,
  a number, a timestamp or the missing value (NaN, None, NaT). Numbers are modelled as
  exact integers: comparisons are exact, and arithmetic is only modelled on 64-bit integer
  columns, where it wraps. Every column has a dtype of its own, which decides whether a
  comparison or the string accessor raises; the dtype does not follow from the cells (an
  empty column has one too).
\<close>

datatype cell = CStr string | CNum int | CTime int | CNull

datatype dtype = Int64 | Float64 | Object | Datetime64 | Category dtype

record dataframe =
  columns :: "(string \<times> dtype) list"
  rows :: "cell list list"

type_synonym series = "dtype \<times> cell list"

datatype error =
    KeyError string
  | TypeError
  | AttributeError
  | NameError string
  | FileNotFoundError string
  | RegexError
  | ExternalError string
  | Unmodelled

text \<open>
  \<open>Unmodelled\<close> is not an exception of the program: it marks the places where an
  evaluated formula leaves the fragment of Python that is modelled here.
\<close>

subsection \<open>Expressions given to \<^verbatim>\<open>eval\<close>\<close>

text \<open>
  The \<^verbatim>\<open>calculate\<close> transform hands the formula text to Python's \<^verbatim>\<open>eval\<close>. The model
  keeps the formula as the expression tree that Python's parser builds from the text:
  \<^verbatim>\<open>price * qty\<close> is \<open>BinOp (Name ''price'') Mult (Name ''qty'')\<close>, and
  \<^verbatim>\<open>df_transformed['price']\<close> is \<open>Subscript (Name ''df_transformed'') (StrLit ''price'')\<close>.
\<close>

datatype binop = Add | Sub | Mult

datatype expr =
    Name string
  | StrLit string
  | IntLit int
  | Subscript expr expr
  | BinOp expr binop expr
  | Attribute expr string
  | Call expr "expr list"

subsection \<open>Rule and transform descriptors\<close>

text \<open>
  A descriptor is a Python dict; the code reads the keys \<^verbatim>\<open>type\<close>, \<^verbatim>\<open>min\<close>, \<^verbatim>\<open>max\<close>,
  \<^verbatim>\<open>regex\<close> and \<^verbatim>\<open>formula\<close>. A key that is absent is \<open>None\<close>, and reading it raises
  \<open>KeyError\<close>.
\<close>

record descriptor =
  type_key :: "string option"
  min_key :: "int option"
  max_key :: "int option"
  regex_key :: "string option"
  formula_key :: "expr option"

subsection \<open>The log\<close>

datatype level = INFO | WARNING | ERROR

datatype message =
    Connected string
  | Connect_failed error
  | Connection_closed
  | Extracting string
  | Rows_extracted nat
  | Column_list "string list"
  | Extract_failed error
  | Cleaning
  | Duplicates_removed nat
  | Nulls_detected "(string \<times> nat) list"
  | Validating
  | Column_not_found string
  | Rows_null nat string
  | Rows_out_of_range nat string
  | Rows_bad_format nat string
  | Total_removed nat
  | Transforming
  | To_uppercase string
  | To_lowercase string
  | To_date string
  | To_category string
  | Stripped string
  | Calculated string expr
  | Loading string
  | Rows_loaded nat string
  | Index_created string string
  | Index_failed error
  | Load_failed error
  | Banner
  | Pipeline_start
  | Statistics_header
  | Stat_extracted nat
  | Stat_transformed nat
  | Stat_loaded nat
  | Stat_errors nat
  | Pipeline_done
  | Pipeline_failed error

type_synonym log = "level \<times> message"

subsection \<open>What the pipeline calls outside itself\<close>

text \<open>
  Regular expressions, the string form of a cell, date parsing, the file system and SQLite
  are not code of this repository. They are parameters of the model:
  \<^item> \<open>re_compile r\<close> is \<open>None\<close> when \<open>r\<close> is not a regular expression, otherwise the
    test "\<^verbatim>\<open>re.match\<close> finds a match at the start of the string";
  \<^item> \<open>py_str d c\<close> is the text \<^verbatim>\<open>astype(str)\<close> gives for cell \<open>c\<close> of a column of dtype \<open>d\<close>;
  \<^item> \<open>to_datetime s i\<close> is what \<^verbatim>\<open>pd.to_datetime(s, errors='coerce')\<close> holds at position
    \<open>i\<close>: a timestamp, or \<open>None\<close> for NaT;
  \<^item> \<open>sqlite3_connect\<close>, \<open>path_exists\<close>, \<open>read_csv\<close>, \<open>to_sql\<close>, \<open>db_cursor\<close>,
    \<open>create_index\<close>, \<open>db_commit\<close> answer for the database and the file system
    (\<open>Some e\<close> or \<open>Inl e\<close>: the call raises \<open>e\<close>).
\<close>

record env =
  re_compile :: "string \<Rightarrow> (string \<Rightarrow> bool) option"
  py_str :: "dtype \<Rightarrow> cell \<Rightarrow> string"
  to_datetime :: "series \<Rightarrow> nat \<Rightarrow> int option"
  sqlite3_connect :: "string \<Rightarrow> error option"
  path_exists :: "string \<Rightarrow> bool"
  read_csv :: "string \<Rightarrow> error + dataframe"
  to_sql :: "dataframe \<Rightarrow> string \<Rightarrow> error option"
  db_cursor :: "error option"
  create_index :: "string \<Rightarrow> string \<Rightarrow> error option"
  db_commit :: "error option"

section \<open>The pandas operations the pipeline uses\<close>

definition column_names :: "dataframe \<Rightarrow> string list" where
  "column_names df = map fst (columns df)"

definition len :: "dataframe \<Rightarrow> nat" where
  "len df = length (rows df)"

fun index_of :: "string \<Rightarrow> (string \<times> dtype) list \<Rightarrow> nat option" where
  "index_of c [] = None"
| "index_of c ((n, d) # cs) = (if n = c then Some 0 else map_option Suc (index_of c cs))"

text \<open>A frame is rectangular; a row too short to have the cell reads as missing.\<close>

definition cell_at :: "nat \<Rightarrow> cell list \<Rightarrow> cell" where
  "cell_at i r = (if i < length r then r ! i else CNull)"

text \<open>\<^verbatim>\<open>df[column]\<close>: the column as a series, \<open>KeyError\<close> when there is none.\<close>

definition getitem :: "dataframe \<Rightarrow> string \<Rightarrow> error + series" where
  "getitem df c =
     (case index_of c (columns df) of
        None \<Rightarrow> Inl (KeyError c)
      | Some i \<Rightarrow> Inr (snd (columns df ! i), map (cell_at i) (rows df)))"

text \<open>\<^verbatim>\<open>s.notna()\<close>\<close>

definition notna :: "series \<Rightarrow> bool list" where
  "notna s = map (\<lambda>c. c \<noteq> CNull) (snd s)"

text \<open>
  \<^verbatim>\<open>s >= bound\<close> and \<^verbatim>\<open>s <= bound\<close> against a number. On a numeric column a missing cell
  compares false. On an object column the comparison is Python's, cell by cell: a missing
  cell compares false, a string or a timestamp against a number raises \<open>TypeError\<close>. A
  datetime column and an (unordered) categorical column refuse the comparison whatever
  they hold.
\<close>

definition num_test :: "(int \<Rightarrow> bool) \<Rightarrow> cell \<Rightarrow> bool" where
  "num_test p c = (case c of CNum n \<Rightarrow> p n | _ \<Rightarrow> False)"

definition not_comparable :: "cell \<Rightarrow> bool" where
  "not_comparable c = (case c of CStr _ \<Rightarrow> True | CTime _ \<Rightarrow> True | _ \<Rightarrow> False)"

definition compare :: "series \<Rightarrow> (int \<Rightarrow> bool) \<Rightarrow> error + bool list" where
  "compare s p =
     (case fst s of
        Int64 \<Rightarrow> Inr (map (num_test p) (snd s))
      | Float64 \<Rightarrow> Inr (map (num_test p) (snd s))
      | Object \<Rightarrow>
          if list_ex not_comparable (snd s) then Inl TypeError
          else Inr (map (num_test p) (snd s))
      | Datetime64 \<Rightarrow> Inl TypeError
      | Category _ \<Rightarrow> Inl TypeError)"

text \<open>\<^verbatim>\<open>m1 & m2\<close>, \<^verbatim>\<open>(~mask).sum()\<close> and \<^verbatim>\<open>df[mask]\<close>, which builds a new frame.\<close>

definition mask_and :: "bool list \<Rightarrow> bool list \<Rightarrow> bool list" where
  "mask_and m1 m2 = map (\<lambda>(a, b). a \<and> b) (zip m1 m2)"

definition count_false :: "bool list \<Rightarrow> nat" where
  "count_false msk = length (filter Not msk)"

definition getitem_mask :: "dataframe \<Rightarrow> bool list \<Rightarrow> dataframe" where
  "getitem_mask df msk = df\<lparr>rows := map snd (filter fst (zip msk (rows df)))\<rparr>"

text \<open>\<^verbatim>\<open>s.astype(str).str.match(regex)\<close>: every cell has a string form, so no cell is missing.\<close>

definition str_match :: "env \<Rightarrow> series \<Rightarrow> string \<Rightarrow> error + bool list" where
  "str_match lib s regex =
     (case re_compile lib regex of
        None \<Rightarrow> Inl RegexError
      | Some matches \<Rightarrow> Inr (map (\<lambda>c. matches (py_str lib (fst s) c)) (snd s)))"

section \<open>The store\<close>

text \<open>
  Data frames are objects: \<^verbatim>\<open>df.copy()\<close> and \<^verbatim>\<open>df[mask]\<close> build a new one, and
  \<^verbatim>\<open>df[column] = ...\<close> changes the one it is applied to. The store is the list of the
  frames that exist; a reference is a position in it.
\<close>

type_synonym store = "dataframe list"

definition alloc :: "store \<Rightarrow> dataframe \<Rightarrow> store \<times> nat" where
  "alloc st df = (st @ [df], length st)"

section \<open>Validation\<close>

text \<open>
  The body of the loop of \<^verbatim>\<open>validate_data\<close> for a column that exists: the mask of the rule
  and the lines logged, or \<open>None\<close> when no branch of the \<^verbatim>\<open>if\<close>/\<^verbatim>\<open>elif\<close> chain is taken.
\<close>

definition removed_log :: "(nat \<Rightarrow> string \<Rightarrow> message) \<Rightarrow> bool list \<Rightarrow> string \<Rightarrow> log list" where
  "removed_log msg msk column =
     (if count_false msk > 0 then [(INFO, msg (count_false msk) column)] else [])"

definition rule_mask ::
  "env \<Rightarrow> dataframe \<Rightarrow> string \<Rightarrow> descriptor \<Rightarrow> error + (bool list \<times> log list) option" where
  "rule_mask lib df_valid column rule =
     (case type_key rule of
        None \<Rightarrow> Inl (KeyError ''type'')
      | Some t \<Rightarrow>
          if t = ''not_null'' then
            (case getitem df_valid column of
               Inl e \<Rightarrow> Inl e
             | Inr s \<Rightarrow> Inr (Some (notna s, removed_log Rows_null (notna s) column)))
          else if t = ''range'' then
            (case getitem df_valid column of
               Inl e \<Rightarrow> Inl e
             | Inr s \<Rightarrow>
                 (case min_key rule of
                    None \<Rightarrow> Inl (KeyError ''min'')
                  | Some lo \<Rightarrow>
                      (case compare s (\<lambda>n. n \<ge> lo) of
                         Inl e \<Rightarrow> Inl e
                       | Inr m1 \<Rightarrow>
                           (case max_key rule of
                              None \<Rightarrow> Inl (KeyError ''max'')
                            | Some hi \<Rightarrow>
                                (case compare s (\<lambda>n. n \<le> hi) of
                                   Inl e \<Rightarrow> Inl e
                                 | Inr m2 \<Rightarrow>
                                     Inr (Some (mask_and m1 m2,
                                       removed_log Rows_out_of_range (mask_and m1 m2) column)))))))
          else if t = ''pattern'' then
            (case getitem df_valid column of
               Inl e \<Rightarrow> Inl e
             | Inr s \<Rightarrow>
                 (case regex_key rule of
                    None \<Rightarrow> Inl (KeyError ''regex'')
                  | Some r \<Rightarrow>
                      (case str_match lib s r of
                         Inl e \<Rightarrow> Inl e
                       | Inr msk \<Rightarrow>
                           Inr (Some (msk, removed_log Rows_bad_format msk column)))))
          else Inr None)"

text \<open>
  The loop over \<^verbatim>\<open>rules.items()\<close>: the rules are the items of the dict in insertion order,
  \<open>v\<close> is the frame the variable \<^verbatim>\<open>df_valid\<close> refers to. An exception leaves the loop.
\<close>

fun validate_loop ::
  "env \<Rightarrow> (string \<times> descriptor) list \<Rightarrow> store \<Rightarrow> nat \<Rightarrow> log list
     \<Rightarrow> store \<times> log list \<times> (error + nat)" where
  "validate_loop lib [] st v logs = (st, logs, Inr v)"
| "validate_loop lib ((column, rule) # rest) st v logs =
     (if column \<notin> set (column_names (st ! v)) then
        validate_loop lib rest st v (logs @ [(WARNING, Column_not_found column)])
      else
        (case rule_mask lib (st ! v) column rule of
           Inl e \<Rightarrow> (st, logs, Inl e)
         | Inr None \<Rightarrow> validate_loop lib rest st v logs
         | Inr (Some (msk, ls)) \<Rightarrow>
             (let (st', v') = alloc st (getitem_mask (st ! v) msk)
              in validate_loop lib rest st' v' (logs @ ls))))"

definition validate_data ::
  "env \<Rightarrow> store \<Rightarrow> nat \<Rightarrow> (string \<times> descriptor) list \<Rightarrow> store \<times> log list \<times> (error + nat)" where
  "validate_data lib st df rules =
     (let (st1, df_valid) = alloc st (st ! df);
          rows_before = len (st1 ! df_valid)
      in (case validate_loop lib rules st1 df_valid [(INFO, Validating)] of
            (st2, logs, Inl e) \<Rightarrow> (st2, logs, Inl e)
          | (st2, logs, Inr v) \<Rightarrow>
              (let total_removed = rows_before - len (st2 ! v)
               in (st2,
                   logs @ (if total_removed > 0 then [(INFO, Total_removed total_removed)] else []),
                   Inr v))))"

section \<open>Transformation\<close>

subsection \<open>String methods\<close>

text \<open>
  \<^verbatim>\<open>str.upper\<close>, \<^verbatim>\<open>str.lower\<close> and \<^verbatim>\<open>str.strip\<close> on the ASCII range: the letters a-z and A-Z
  change case, the ASCII white space is stripped, every other character is left as it is
  (Python's mappings of characters beyond ASCII are not modelled).
\<close>

definition upper_char :: "char \<Rightarrow> char" where
  "upper_char c =
     (let n = (of_char c :: nat) in if 97 \<le> n \<and> n \<le> 122 then char_of (n - 32) else c)"

definition lower_char :: "char \<Rightarrow> char" where
  "lower_char c =
     (let n = (of_char c :: nat) in if 65 \<le> n \<and> n \<le> 90 then char_of (n + 32) else c)"

definition str_upper :: "string \<Rightarrow> string" where
  "str_upper s = map upper_char s"

definition str_lower :: "string \<Rightarrow> string" where
  "str_lower s = map lower_char s"

definition is_space :: "char \<Rightarrow> bool" where
  "is_space c = ((of_char c :: nat) \<in> {9, 10, 11, 12, 13, 28, 29, 30, 31, 32})"

definition str_strip :: "string \<Rightarrow> string" where
  "str_strip s = rev (dropWhile is_space (rev (dropWhile is_space s)))"

text \<open>
  The accessor \<^verbatim>\<open>s.str\<close> raises \<open>AttributeError\<close> unless the column is an object column
  (or a categorical over one) whose values, the missing ones left out, are inferred as
  strings, empty or mixed: all numbers or all timestamps are refused, and so is every
  numeric or datetime column, also an empty one.
\<close>

definition is_str :: "cell \<Rightarrow> bool" where
  "is_str c = (case c of CStr _ \<Rightarrow> True | _ \<Rightarrow> False)"

definition is_num :: "cell \<Rightarrow> bool" where
  "is_num c = (case c of CNum _ \<Rightarrow> True | _ \<Rightarrow> False)"

definition is_time :: "cell \<Rightarrow> bool" where
  "is_time c = (case c of CTime _ \<Rightarrow> True | _ \<Rightarrow> False)"

definition infer_allowed :: "cell list \<Rightarrow> bool" where
  "infer_allowed cs =
     (list_all (\<lambda>c. c = CNull) cs \<or> list_ex is_str cs \<or> (list_ex is_num cs \<and> list_ex is_time cs))"

definition str_accessor :: "series \<Rightarrow> bool" where
  "str_accessor s =
     (case fst s of
        Object \<Rightarrow> infer_allowed (snd s)
      | Category d \<Rightarrow> (case d of Object \<Rightarrow> infer_allowed (snd s) | _ \<Rightarrow> False)
      | _ \<Rightarrow> False)"

text \<open>
  A string method maps the strings and gives the missing value for every other cell; the
  result is an object column.
\<close>

definition str_cell :: "(string \<Rightarrow> string) \<Rightarrow> cell \<Rightarrow> cell" where
  "str_cell f c = (case c of CStr s \<Rightarrow> CStr (f s) | _ \<Rightarrow> CNull)"

definition str_method :: "(string \<Rightarrow> string) \<Rightarrow> series \<Rightarrow> error + series" where
  "str_method f s =
     (if str_accessor s then Inr (Object, map (str_cell f) (snd s)) else Inl AttributeError)"

text \<open>\<^verbatim>\<open>pd.to_datetime(s, errors='coerce')\<close> and \<^verbatim>\<open>s.astype('category')\<close>\<close>

definition pd_to_datetime :: "env \<Rightarrow> series \<Rightarrow> error + series" where
  "pd_to_datetime lib s =
     Inr (Datetime64,
          map (\<lambda>i. case to_datetime lib s i of None \<Rightarrow> CNull | Some t \<Rightarrow> CTime t)
              [0..<length (snd s)])"

definition astype_category :: "series \<Rightarrow> error + series" where
  "astype_category s =
     Inr (case fst s of Category d \<Rightarrow> Category d | d \<Rightarrow> Category d, snd s)"

subsection \<open>Assignment to a column\<close>

text \<open>
  \<^verbatim>\<open>df[column] = s\<close> changes the frame \<^verbatim>\<open>df\<close> itself: the column takes the dtype and the
  values of \<open>s\<close>, row by row (a row \<open>s\<close> has no value for gets the missing value); a column
  that is not there is added at the end.
\<close>

definition setitem :: "dataframe \<Rightarrow> string \<Rightarrow> series \<Rightarrow> dataframe" where
  "setitem df c s =
     (case index_of c (columns df) of
        Some i \<Rightarrow>
          df\<lparr>columns := (columns df)[i := (c, fst s)],
             rows := map (\<lambda>(j, r). r[i := cell_at j (snd s)]) (enumerate 0 (rows df))\<rparr>
      | None \<Rightarrow>
          df\<lparr>columns := columns df @ [(c, fst s)],
             rows := map (\<lambda>(j, r). r @ [cell_at j (snd s)]) (enumerate 0 (rows df))\<rparr>)"

definition assign :: "store \<Rightarrow> nat \<Rightarrow> string \<Rightarrow> series \<Rightarrow> store" where
  "assign st r c s = st[r := setitem (st ! r) c s]"

subsection \<open>Evaluation of a formula\<close>

text \<open>
  \<^verbatim>\<open>eval(transform['formula'])\<close> runs in the scope of \<^verbatim>\<open>transform_data\<close>. The names it can
  see are the locals of the method (\<^verbatim>\<open>self\<close>, \<^verbatim>\<open>df\<close>, \<^verbatim>\<open>transformations\<close>,
  \<^verbatim>\<open>df_transformed\<close>, \<^verbatim>\<open>column\<close>, \<^verbatim>\<open>transform\<close>), the globals of the module and Python's
  builtins (those of Python 3.12). Any other name raises \<open>NameError\<close>: a column name is
  not a variable.
\<close>

datatype pyval =
    VFrame nat
  | VSeries series
  | VStr string
  | VInt int
  | VPop nat
  | VOther

definition module_globals :: "string list" where
  "module_globals =
     [''pd'', ''sqlite3'', ''logging'', ''datetime'', ''os'', ''re'', ''ETLPipeline'', ''main'',
      ''__name__'', ''__doc__'', ''__package__'', ''__loader__'', ''__spec__'', ''__file__'',
      ''__cached__'', ''__builtins__'']"

definition builtins :: "string list" where
  "builtins =
     [''ArithmeticError'', ''AssertionError'', ''AttributeError'', ''BaseException'',
      ''BaseExceptionGroup'', ''BlockingIOError'', ''BrokenPipeError'', ''BufferError'',
      ''BytesWarning'', ''ChildProcessError'', ''ConnectionAbortedError'', ''ConnectionError'',
      ''ConnectionRefusedError'', ''ConnectionResetError'', ''DeprecationWarning'', ''EOFError'',
      ''Ellipsis'', ''EncodingWarning'', ''EnvironmentError'', ''Exception'', ''ExceptionGroup'',
      ''FileExistsError'', ''FileNotFoundError'', ''FloatingPointError'', ''FutureWarning'',
      ''GeneratorExit'', ''IOError'', ''ImportError'', ''ImportWarning'', ''IndentationError'',
      ''IndexError'', ''InterruptedError'', ''IsADirectoryError'', ''KeyError'',
      ''KeyboardInterrupt'', ''LookupError'', ''MemoryError'', ''ModuleNotFoundError'',
      ''NameError'', ''NotADirectoryError'', ''NotImplemented'', ''NotImplementedError'',
      ''OSError'', ''OverflowError'', ''PendingDeprecationWarning'', ''PermissionError'',
      ''ProcessLookupError'', ''RecursionError'', ''ReferenceError'', ''ResourceWarning'',
      ''RuntimeError'', ''RuntimeWarning'', ''StopAsyncIteration'', ''StopIteration'',
      ''SyntaxError'', ''SyntaxWarning'', ''SystemError'', ''SystemExit'', ''TabError'',
      ''TimeoutError'', ''TypeError'', ''UnboundLocalError'', ''UnicodeDecodeError'',
      ''UnicodeEncodeError'', ''UnicodeError'', ''UnicodeTranslateError'', ''UnicodeWarning'',
      ''UserWarning'', ''ValueError'', ''Warning'', ''ZeroDivisionError'', ''__build_class__'',
      ''__debug__'', ''__import__'', ''abs'', ''aiter'', ''all'', ''anext'', ''any'', ''ascii'',
      ''bin'', ''bool'', ''breakpoint'', ''bytearray'', ''bytes'', ''callable'', ''chr'',
      ''classmethod'', ''compile'', ''complex'', ''copyright'', ''credits'', ''delattr'',
      ''dict'', ''dir'', ''divmod'', ''enumerate'', ''eval'', ''exec'', ''exit'', ''filter'',
      ''float'', ''format'', ''frozenset'', ''getattr'', ''globals'', ''hasattr'', ''hash'',
      ''help'', ''hex'', ''id'', ''input'', ''int'', ''isinstance'', ''issubclass'', ''iter'',
      ''len'', ''license'', ''list'', ''locals'', ''map'', ''max'', ''memoryview'', ''min'',
      ''next'', ''object'', ''oct'', ''open'', ''ord'', ''pow'', ''print'', ''property'',
      ''quit'', ''range'', ''repr'', ''reversed'', ''round'', ''set'', ''setattr'', ''slice'',
      ''sorted'', ''staticmethod'', ''str'', ''sum'', ''super'', ''tuple'', ''type'', ''vars'',
      ''zip'']"

definition lookup_name :: "nat \<Rightarrow> nat \<Rightarrow> string \<Rightarrow> string \<Rightarrow> error + pyval" where
  "lookup_name df df_transformed column n =
     (if n = ''df'' then Inr (VFrame df)
      else if n = ''df_transformed'' then Inr (VFrame df_transformed)
      else if n = ''column'' then Inr (VStr column)
      else if n \<in> set [''self'', ''transformations'', ''transform''] then Inr VOther
      else if n \<in> set module_globals then Inr VOther
      else if n \<in> set builtins then Inr VOther
      else Inl (NameError n))"

text \<open>
  \<^verbatim>\<open>frame[key]\<close> on a frame and a string is the column. Arithmetic is modelled between two
  64-bit integer columns of the same frame length (element by element, wrapping at 64
  bits) and between two Python integers (unbounded).
\<close>

definition subscript :: "store \<Rightarrow> pyval \<Rightarrow> pyval \<Rightarrow> error + pyval" where
  "subscript st v k =
     (case (v, k) of
        (VFrame r, VStr c) \<Rightarrow> map_sum id VSeries (getitem (st ! r) c)
      | _ \<Rightarrow> Inl Unmodelled)"

definition wrap64 :: "int \<Rightarrow> int" where
  "wrap64 n = (n + 2 ^ 63) mod 2 ^ 64 - 2 ^ 63"

fun arith :: "binop \<Rightarrow> int \<Rightarrow> int \<Rightarrow> int" where
  "arith Add a b = a + b"
| "arith Sub a b = a - b"
| "arith Mult a b = a * b"

definition num_of :: "cell \<Rightarrow> int" where
  "num_of c = (case c of CNum n \<Rightarrow> n | _ \<Rightarrow> 0)"

definition series_binop :: "binop \<Rightarrow> series \<Rightarrow> series \<Rightarrow> error + series" where
  "series_binop op a b =
     (if fst a = Int64 \<and> fst b = Int64 \<and> length (snd a) = length (snd b)
         \<and> list_all is_num (snd a) \<and> list_all is_num (snd b)
      then Inr (Int64,
             map (\<lambda>(x, y). CNum (wrap64 (arith op (num_of x) (num_of y)))) (zip (snd a) (snd b)))
      else Inl Unmodelled)"

definition binary :: "binop \<Rightarrow> pyval \<Rightarrow> pyval \<Rightarrow> error + pyval" where
  "binary op a b =
     (case (a, b) of
        (VSeries x, VSeries y) \<Rightarrow> map_sum id VSeries (series_binop op x y)
      | (VInt x, VInt y) \<Rightarrow> Inr (VInt (arith op x y))
      | _ \<Rightarrow> Inl Unmodelled)"

text \<open>
  The one method that is modelled is \<^verbatim>\<open>frame.pop(name)\<close>: it returns the column and removes
  it from the frame it is called on.
\<close>

definition attribute :: "pyval \<Rightarrow> string \<Rightarrow> error + pyval" where
  "attribute v n =
     (case v of
        VFrame r \<Rightarrow> if n = ''pop'' then Inr (VPop r) else Inl Unmodelled
      | _ \<Rightarrow> Inl Unmodelled)"

definition drop_column :: "dataframe \<Rightarrow> string \<Rightarrow> dataframe" where
  "drop_column df c =
     (case index_of c (columns df) of
        None \<Rightarrow> df
      | Some i \<Rightarrow>
          df\<lparr>columns := take i (columns df) @ drop (Suc i) (columns df),
             rows := map (\<lambda>r. take i r @ drop (Suc i) r) (rows df)\<rparr>)"

definition call :: "store \<Rightarrow> pyval \<Rightarrow> pyval list \<Rightarrow> store \<times> (error + pyval)" where
  "call st f args =
     (case (f, args) of
        (VPop r, [VStr c]) \<Rightarrow>
          (case getitem (st ! r) c of
             Inl e \<Rightarrow> (st, Inl e)
           | Inr s \<Rightarrow> (st[r := drop_column (st ! r) c], Inr (VSeries s)))
      | _ \<Rightarrow> (st, Inl Unmodelled))"

fun eval_expr :: "nat \<Rightarrow> nat \<Rightarrow> string \<Rightarrow> expr \<Rightarrow> store \<Rightarrow> store \<times> (error + pyval)"
  and eval_args :: "nat \<Rightarrow> nat \<Rightarrow> string \<Rightarrow> expr list \<Rightarrow> store \<Rightarrow> store \<times> (error + pyval list)"
  where
  "eval_expr df dft column (Name n) st = (st, lookup_name df dft column n)"
| "eval_expr df dft column (StrLit s) st = (st, Inr (VStr s))"
| "eval_expr df dft column (IntLit n) st = (st, Inr (VInt n))"
| "eval_expr df dft column (Subscript e k) st =
     (case eval_expr df dft column e st of
        (st1, Inl err) \<Rightarrow> (st1, Inl err)
      | (st1, Inr v) \<Rightarrow>
          (case eval_expr df dft column k st1 of
             (st2, Inl err) \<Rightarrow> (st2, Inl err)
           | (st2, Inr i) \<Rightarrow> (st2, subscript st2 v i)))"
| "eval_expr df dft column (BinOp l op r) st =
     (case eval_expr df dft column l st of
        (st1, Inl err) \<Rightarrow> (st1, Inl err)
      | (st1, Inr a) \<Rightarrow>
          (case eval_expr df dft column r st1 of
             (st2, Inl err) \<Rightarrow> (st2, Inl err)
           | (st2, Inr b) \<Rightarrow> (st2, binary op a b)))"
| "eval_expr df dft column (Attribute e n) st =
     (case eval_expr df dft column e st of
        (st1, Inl err) \<Rightarrow> (st1, Inl err)
      | (st1, Inr v) \<Rightarrow> (st1, attribute v n))"
| "eval_expr df dft column (Call f args) st =
     (case eval_expr df dft column f st of
        (st1, Inl err) \<Rightarrow> (st1, Inl err)
      | (st1, Inr fv) \<Rightarrow>
          (case eval_args df dft column args st1 of
             (st2, Inl err) \<Rightarrow> (st2, Inl err)
           | (st2, Inr vs) \<Rightarrow> call st2 fv vs))"
| "eval_args df dft column [] st = (st, Inr [])"
| "eval_args df dft column (e # es) st =
     (case eval_expr df dft column e st of
        (st1, Inl err) \<Rightarrow> (st1, Inl err)
      | (st1, Inr v) \<Rightarrow>
          (case eval_args df dft column es st1 of
             (st2, Inl err) \<Rightarrow> (st2, Inl err)
           | (st2, Inr vs) \<Rightarrow> (st2, Inr (v # vs))))"

text \<open>
  What \<^verbatim>\<open>df_transformed[column] = value\<close> stores for an evaluated value: a series as it
  is, an integer or a string in every row.
\<close>

definition as_column :: "dataframe \<Rightarrow> pyval \<Rightarrow> error + series" where
  "as_column df v =
     (case v of
        VSeries s \<Rightarrow> Inr s
      | VInt n \<Rightarrow>
          Inr (if - (2 ^ 63) \<le> n \<and> n < 2 ^ 63 then Int64 else Object, replicate (len df) (CNum n))
      | VStr s \<Rightarrow> Inr (Object, replicate (len df) (CStr s))
      | _ \<Rightarrow> Inl Unmodelled)"

subsection \<open>The loop of \<^verbatim>\<open>transform_data\<close>\<close>

text \<open>
  A transform that rewrites the column from its own values: read the column, compute the
  new one (which may raise), assign it, log.
\<close>

definition rewrite_column ::
  "store \<Rightarrow> nat \<Rightarrow> string \<Rightarrow> (series \<Rightarrow> error + series) \<Rightarrow> message
     \<Rightarrow> store \<times> (error + log list)" where
  "rewrite_column st dft column f msg =
     (case getitem (st ! dft) column of
        Inl e \<Rightarrow> (st, Inl e)
      | Inr s \<Rightarrow>
          (case f s of
             Inl e \<Rightarrow> (st, Inl e)
           | Inr s' \<Rightarrow> (assign st dft column s', Inr [(INFO, msg)])))"

definition transform_body ::
  "env \<Rightarrow> nat \<Rightarrow> nat \<Rightarrow> string \<Rightarrow> descriptor \<Rightarrow> store \<Rightarrow> store \<times> (error + log list)" where
  "transform_body lib df dft column transform st =
     (case type_key transform of
        None \<Rightarrow> (st, Inl (KeyError ''type''))
      | Some t \<Rightarrow>
          if t = ''uppercase'' then
            rewrite_column st dft column (str_method str_upper) (To_uppercase column)
          else if t = ''lowercase'' then
            rewrite_column st dft column (str_method str_lower) (To_lowercase column)
          else if t = ''date'' then
            rewrite_column st dft column (pd_to_datetime lib) (To_date column)
          else if t = ''category'' then
            rewrite_column st dft column astype_category (To_category column)
          else if t = ''strip'' then
            rewrite_column st dft column (str_method str_strip) (Stripped column)
          else if t = ''calculate'' then
            (case formula_key transform of
               None \<Rightarrow> (st, Inl (KeyError ''formula''))
             | Some f \<Rightarrow>
                 (case eval_expr df dft column f st of
                    (st1, Inl e) \<Rightarrow> (st1, Inl e)
                  | (st1, Inr v) \<Rightarrow>
                      (case as_column (st1 ! dft) v of
                         Inl e \<Rightarrow> (st1, Inl e)
                       | Inr s \<Rightarrow>
                           (assign st1 dft column s, Inr [(INFO, Calculated column f)]))))
          else (st, Inr []))"

fun transform_loop ::
  "env \<Rightarrow> (string \<times> descriptor) list \<Rightarrow> nat \<Rightarrow> nat \<Rightarrow> store \<Rightarrow> log list
     \<Rightarrow> store \<times> log list \<times> error option" where
  "transform_loop lib [] df dft st logs = (st, logs, None)"
| "transform_loop lib ((column, transform) # rest) df dft st logs =
     (if column \<notin> set (column_names (st ! dft)) then
        transform_loop lib rest df dft st (logs @ [(WARNING, Column_not_found column)])
      else
        (case transform_body lib df dft column transform st of
           (st1, Inl e) \<Rightarrow> (st1, logs, Some e)
         | (st1, Inr ls) \<Rightarrow> transform_loop lib rest df dft st1 (logs @ ls)))"

section \<open>The pipeline object\<close>

datatype connection = Conn_open | Conn_closed

record stage_stats =
  extracted :: nat
  transformed :: nat
  loaded :: nat
  errors :: nat

record pipeline =
  db_name :: string
  connection :: "connection option"
  stats :: stage_stats

definition init :: "string \<Rightarrow> pipeline" where
  "init name =
     \<lparr>db_name = name, connection = None,
      stats = \<lparr>extracted = 0, transformed = 0, loaded = 0, errors = 0\<rparr>\<rparr>"

definition transform_data ::
  "env \<Rightarrow> pipeline \<Rightarrow> store \<Rightarrow> nat \<Rightarrow> (string \<times> descriptor) list
     \<Rightarrow> pipeline \<times> store \<times> log list \<times> (error + nat)" where
  "transform_data lib self st df transformations =
     (let (st1, df_transformed) = alloc st (st ! df)
      in (case transform_loop lib transformations df df_transformed st1 [(INFO, Transforming)] of
            (st2, logs, Some e) \<Rightarrow> (self, st2, logs, Inl e)
          | (st2, logs, None) \<Rightarrow>
              (self\<lparr>stats := (stats self)\<lparr>transformed := len (st2 ! df_transformed)\<rparr>\<rparr>,
               st2, logs, Inr df_transformed)))"

section \<open>Cleaning\<close>

text \<open>
  \<^verbatim>\<open>df.drop_duplicates()\<close> builds a new frame that keeps the first of the rows that are
  equal in every column; \<^verbatim>\<open>isnull().sum()\<close> counts the missing cells of each column.
\<close>

fun keep_first :: "'a list \<Rightarrow> 'a list \<Rightarrow> 'a list" where
  "keep_first seen [] = []"
| "keep_first seen (x # xs) =
     (if x \<in> set seen then keep_first seen xs else x # keep_first (x # seen) xs)"

definition drop_duplicates :: "dataframe \<Rightarrow> dataframe" where
  "drop_duplicates df = df\<lparr>rows := keep_first [] (rows df)\<rparr>"

definition null_counts :: "dataframe \<Rightarrow> (string \<times> nat) list" where
  "null_counts df =
     map (\<lambda>(i, c). (fst c, length (filter (\<lambda>r. cell_at i r = CNull) (rows df))))
         (enumerate 0 (columns df))"

definition clean_data :: "store \<Rightarrow> nat \<Rightarrow> store \<times> log list \<times> nat" where
  "clean_data st df =
     (let initial_count = len (st ! df);
          (st1, df_clean) = alloc st (drop_duplicates (st ! df));
          duplicates_removed = initial_count - len (st1 ! df_clean);
          counts = null_counts (st1 ! df_clean)
      in (st1,
          [(INFO, Cleaning)]
          @ (if duplicates_removed > 0 then [(INFO, Duplicates_removed duplicates_removed)] else [])
          @ (if sum_list (map snd counts) > 0
             then [(INFO, Nulls_detected (filter (\<lambda>(c, k). k > 0) counts))] else []),
          df_clean))"

section \<open>Connection, extraction and load\<close>







section \<open>The whole run\<close>






section \<open>The properties in the words of the specification\<close>



definition warnings :: "log list \<Rightarrow> nat" where
  "warnings logs = length (filter (\<lambda>l. fst l = WARNING) logs)"

section \<open>Example data\<close>

definition rule_of_kind :: "string \<Rightarrow> descriptor" where
  "rule_of_kind k =
     \<lparr>type_key = Some k, min_key = None, max_key = None, regex_key = None, formula_key = None\<rparr>"

definition range_rule :: "int \<Rightarrow> int \<Rightarrow> descriptor" where
  "range_rule lo hi = (rule_of_kind ''range'')\<lparr>min_key := Some lo, max_key := Some hi\<rparr>"


definition calculate :: "expr \<Rightarrow> descriptor" where
  "calculate f = (rule_of_kind ''calculate'')\<lparr>formula_key := Some f\<rparr>"

definition people :: dataframe where
  "people =
     \<lparr>columns = [(''email'', Object), (''age'', Float64)],
      rows = [[CStr ''ann@x.org'', CNum 17], [CStr ''bob@x.org'', CNum 25], [CNull, CNum 40],
              [CStr ''cy@x.org'', CNull], [CStr ''bea@x.org'', CNum 33]]\<rparr>"

definition orders :: dataframe where
  "orders =
     \<lparr>columns = [(''price'', Int64), (''qty'', Int64), (''total'', Int64), (''name'', Object)],
      rows = [[CNum 10, CNum 3, CNum 0, CStr ''ab''], [CNum 10, CNum 3, CNum 0, CStr ''Cd'']]\<rparr>"

text \<open>
  An environment for the examples: a regular expression is read as a literal prefix, the
  files \<^verbatim>\<open>people.csv\<close> and \<^verbatim>\<open>orders.csv\<close> exist, and the database accepts everything.
\<close>

definition example_env :: env where
  "example_env =
     \<lparr>re_compile = (\<lambda>r. Some (\<lambda>s. take (length r) s = r)),
      py_str = (\<lambda>d c. case c of CStr s \<Rightarrow> s | _ \<Rightarrow> ''nan''),
      to_datetime = (\<lambda>s i. None),
      sqlite3_connect = (\<lambda>n. None),
      path_exists = (\<lambda>p. p = ''people.csv'' \<or> p = ''orders.csv''),
      read_csv = (\<lambda>p. if p = ''people.csv'' then Inr people else Inr orders),
      to_sql = (\<lambda>d t. None),
      db_cursor = None,
      create_index = (\<lambda>t c. None),
      db_commit = None\<rparr>"



definition product_formula :: expr where
  "product_formula =
     BinOp (Subscript (Name ''df_transformed'') (StrLit ''price'')) Mult
           (Subscript (Name ''df_transformed'') (StrLit ''qty''))"


text \<open>
  A formula that makes no call: names, literals, subscripts, arithmetic and attribute
  reads. The rule set is free of calls when every formula in it is.
\<close>

fun call_free :: "expr \<Rightarrow> bool" where
  "call_free (Name n) = True"
| "call_free (StrLit s) = True"
| "call_free (IntLit n) = True"
| "call_free (Subscript e k) = (call_free e \<and> call_free k)"
| "call_free (BinOp l op r) = (call_free l \<and> call_free r)"
| "call_free (Attribute e n) = call_free e"
| "call_free (Call f args) = False"

definition formulas_call_free :: "(string \<times> descriptor) list \<Rightarrow> bool" where
  "formulas_call_free ts =
     list_all (\<lambda>t. case formula_key (snd t) of None \<Rightarrow> True | Some f \<Rightarrow> call_free f) ts"

text \<open>The formula \<^verbatim>\<open>df.pop('qty')\<close>.\<close>

definition pop_formula :: expr where
  "pop_formula = Call (Attribute (Name ''df'') ''pop'') [StrLit ''qty'']"







section \<open>Lemmas on the pandas operations\<close>








section \<open>Lemmas on validation\<close>























section \<open>Lemmas on the store\<close>

lemma validate_loop_appends:
  "validate_loop lib rules st v logs = (st', logs', r) \<Longrightarrow>
     (\<exists>ys. st' = st @ ys) \<and> (\<forall>v'. r = Inr v' \<longrightarrow> v' = v \<or> length st \<le> v')"
proof (induction rules arbitrary: st v logs)
  case Nil
  then show ?case by auto
next
  case (Cons cr rules)
  obtain column rule where cr: "cr = (column, rule)" by (cases cr)
  show ?case
  proof (cases "column \<in> set (column_names (st ! v))")
    case False
    then have "validate_loop lib rules st v (logs @ [(WARNING, Column_not_found column)])
                 = (st', logs', r)"
      using Cons.prems cr by simp
    from Cons.IH [OF this] show ?thesis .
  next
    case True
    show ?thesis
    proof (cases "rule_mask lib (st ! v) column rule")
      case (Inl e)
      then show ?thesis using Cons.prems cr True by auto
    next
      case (Inr res)
      show ?thesis
      proof (cases res)
        case None
        then have "validate_loop lib rules st v logs = (st', logs', r)"
          using Cons.prems cr True Inr by simp
        from Cons.IH [OF this] show ?thesis .
      next
        case (Some ml)
        obtain msk ls where ml: "ml = (msk, ls)" by (cases ml)
        let ?d = "getitem_mask (st ! v) msk"
        have step: "validate_loop lib rules (st @ [?d]) (length st) (logs @ ls) = (st', logs', r)"
          using Cons.prems cr True Inr Some ml by (simp add: alloc_def)
        from Cons.IH [OF step] show ?thesis by auto
      qed
    qed
  qed
qed

lemma eval_call_free:
  "call_free e \<Longrightarrow> eval_expr df dft column e st = (st', r) \<Longrightarrow> st' = st"
proof (induction e arbitrary: st st' r)
  case (Subscript e k)
  then show ?case by (fastforce split: prod.splits sum.splits)
next
  case (BinOp l op rr)
  then show ?case by (fastforce split: prod.splits sum.splits)
next
  case (Attribute e n)
  then show ?case by (fastforce split: prod.splits sum.splits)
qed auto

lemma rewrite_column_frame:
  "rewrite_column st w column f msg = (st1, r) \<Longrightarrow>
     length st1 = length st \<and> (\<forall>i. i \<noteq> w \<longrightarrow> st1 ! i = st ! i)"
  by (auto simp: rewrite_column_def assign_def split: sum.splits)

lemma transform_body_frame:
  assumes "case formula_key t of None \<Rightarrow> True | Some f \<Rightarrow> call_free f"
    and "transform_body lib df w column t st = (st1, r)"
  shows "length st1 = length st \<and> (\<forall>i. i \<noteq> w \<longrightarrow> st1 ! i = st ! i)"
proof (cases "type_key t")
  case None
  then show ?thesis using assms(2) by (simp add: transform_body_def)
next
  case (Some k)
  show ?thesis
  proof (cases "k = ''calculate''")
    case False
    then show ?thesis
      using assms(2) Some rewrite_column_frame
      by (auto simp: transform_body_def split: if_splits)
  next
    case True
    show ?thesis
    proof (cases "formula_key t")
      case None
      then show ?thesis using assms(2) Some True by (simp add: transform_body_def)
    next
      case (Some f)
      then have cf: "call_free f" using assms(1) by simp
      obtain st0 r0 where ev: "eval_expr df w column f st = (st0, r0)"
        by (cases "eval_expr df w column f st")
      from eval_call_free [OF cf ev] have "st0 = st" .
      then show ?thesis
        using assms(2) \<open>type_key t = Some k\<close> True Some ev
        by (auto simp: transform_body_def assign_def split: sum.splits)
    qed
  qed
qed

lemma transform_loop_frame:
  "formulas_call_free ts \<Longrightarrow> transform_loop lib ts df w st logs = (st', logs', r) \<Longrightarrow>
     length st' = length st \<and> (\<forall>i. i \<noteq> w \<longrightarrow> st' ! i = st ! i)"
proof (induction ts arbitrary: st logs)
  case Nil
  then show ?case by simp
next
  case (Cons ct ts)
  obtain column t where ct: "ct = (column, t)" by (cases ct)
  have cf: "case formula_key t of None \<Rightarrow> True | Some f \<Rightarrow> call_free f"
    and rest: "formulas_call_free ts"
    using Cons.prems(1) ct by (simp_all add: formulas_call_free_def)
  show ?case
  proof (cases "column \<in> set (column_names (st ! w))")
    case False
    then have "transform_loop lib ts df w st (logs @ [(WARNING, Column_not_found column)])
                 = (st', logs', r)"
      using Cons.prems(2) ct by simp
    from Cons.IH [OF rest this] show ?thesis .
  next
    case True
    obtain st1 r1 where b: "transform_body lib df w column t st = (st1, r1)"
      by (cases "transform_body lib df w column t st")
    note f1 = transform_body_frame [OF cf b]
    show ?thesis
    proof (cases r1)
      case (Inl e)
      then show ?thesis using Cons.prems(2) ct True b f1 by auto
    next
      case (Inr ls)
      then have "transform_loop lib ts df w st1 (logs @ ls) = (st', logs', r)"
        using Cons.prems(2) ct True b by simp
      from Cons.IH [OF rest this] f1 show ?thesis by simp
    qed
  qed
qed

section \<open>Lemmas on the run\<close>





















section \<open>The claims\<close>



text \<open>
  Claim C7. With an empty rule set \<open>validate_data\<close>, and with an empty transformation set
  \<open>transform_data\<close>, return a dataset equal to the input: a copy of it, with the same
  columns, rows and cells.
\<close>

theorem empty_rule_sets_are_no_ops:
  "validate_data lib st df [] = (st @ [st ! df], [(INFO, Validating)], Inr (length st))
   \<and> transform_data lib self st df []
       = (self\<lparr>stats := (stats self)\<lparr>transformed := len (st ! df)\<rparr>\<rparr>,
          st @ [st ! df], [(INFO, Transforming)], Inr (length st))
   \<and> (st @ [st ! df]) ! length st = st ! df"
  by (simp add: validate_data_def transform_data_def alloc_def)

text \<open>
  Claim C9. A single validation rule or transformation whose column the dataset does not
  have: the call returns a dataset equal to the input, raises nothing, and logs exactly
  one warning.
\<close>

theorem absent_column_is_skipped_with_one_warning:
  assumes "column \<notin> set (column_names (st ! df))"
  shows "(case validate_data lib st df [(column, rule)] of
            (st', logs, r) \<Rightarrow>
              r = Inr (length st) \<and> st' ! length st = st ! df \<and> warnings logs = 1)
       \<and> (case transform_data lib self st df [(column, rule)] of
            (self', st', logs, r) \<Rightarrow>
              r = Inr (length st) \<and> st' ! length st = st ! df \<and> warnings logs = 1)"
  using assms by (simp add: validate_data_def transform_data_def alloc_def warnings_def)

theorem absent_column_is_skipped_with_one_warning_witness:
  "''city'' \<notin> set (column_names ([people] ! 0))
   \<and> (case validate_data example_env [people] 0 [(''city'', rule_of_kind ''not_null'')] of
        (st', logs, r) \<Rightarrow>
          r = Inr (length [people]) \<and> st' ! length [people] = [people] ! 0 \<and> warnings logs = 1)
   \<and> (case transform_data example_env (init ''db'') [people] 0
             [(''city'', rule_of_kind ''not_null'')] of
        (self', st', logs, r) \<Rightarrow>
          r = Inr (length [people]) \<and> st' ! length [people] = [people] ! 0 \<and> warnings logs = 1)"
proof -
  have h: "''city'' \<notin> set (column_names ([people] ! 0))"
    by (simp add: column_names_def people_def)
  note t = absent_column_is_skipped_with_one_warning
    [OF h, where lib = example_env and rule = "rule_of_kind ''not_null''" and self = "init ''db''"]
  show ?thesis by (rule conjI [OF h t])
qed







text \<open>
  Claim C4 as it is stated fails: a descriptor of a kind the code does not know, on a column
  that exists, reports nothing; both functions return a dataset.
\<close>

theorem unknown_kind_is_skipped_example:
  "snd (snd (validate_data example_env [people] 0 [(''age'', rule_of_kind ''positive'')])) = Inr 1
   \<and> snd (snd (snd (transform_data example_env (init ''db'') [people] 0
                      [(''email'', rule_of_kind ''reverse'')]))) = Inr 1"
  by code_simp

text \<open>
  Claim C4, amended. A rule or transform descriptor whose kind is not one of the kinds the
  function knows, on a column that exists, is skipped without a word: the function returns
  a dataset equal to its input, raises nothing and logs nothing but its opening line.
\<close>

theorem unknown_kind_is_skipped:
  assumes "column \<in> set (column_names (st ! df))" and "type_key d = Some k"
  shows "(k \<notin> {''not_null'', ''range'', ''pattern''}
          \<longrightarrow> validate_data lib st df [(column, d)]
                = (st @ [st ! df], [(INFO, Validating)], Inr (length st)))
       \<and> (k \<notin> {''uppercase'', ''lowercase'', ''date'', ''category'', ''strip'', ''calculate''}
          \<longrightarrow> transform_data lib self st df [(column, d)]
                = (self\<lparr>stats := (stats self)\<lparr>transformed := len (st ! df)\<rparr>\<rparr>,
                   st @ [st ! df], [(INFO, Transforming)], Inr (length st)))"
  using assms
  by (simp add: validate_data_def transform_data_def alloc_def rule_mask_def transform_body_def)

theorem unknown_kind_is_skipped_witness:
  "''age'' \<in> set (column_names ([people] ! 0))
   \<and> type_key (rule_of_kind ''positive'') = Some ''positive''
   \<and> ''positive'' \<notin> {''not_null'', ''range'', ''pattern''}
   \<and> validate_data example_env [people] 0 [(''age'', rule_of_kind ''positive'')]
       = ([people] @ [[people] ! 0], [(INFO, Validating)], Inr (length [people]))
   \<and> ''positive'' \<notin> {''uppercase'', ''lowercase'', ''date'', ''category'', ''strip'', ''calculate''}
   \<and> transform_data example_env (init ''db'') [people] 0 [(''age'', rule_of_kind ''positive'')]
       = ((init ''db'')\<lparr>stats := (stats (init ''db''))\<lparr>transformed := len ([people] ! 0)\<rparr>\<rparr>,
          [people] @ [[people] ! 0], [(INFO, Transforming)], Inr (length [people]))"
proof -
  have h1: "''age'' \<in> set (column_names ([people] ! 0))"
    by (simp add: column_names_def people_def)
  have h2: "type_key (rule_of_kind ''positive'') = Some ''positive''"
    by (simp add: rule_of_kind_def)
  have n1: "''positive'' \<notin> {''not_null'', ''range'', ''pattern''}"
    by simp
  have n2: "''positive''
              \<notin> {''uppercase'', ''lowercase'', ''date'', ''category'', ''strip'', ''calculate''}"
    by simp
  note T = unknown_kind_is_skipped [OF h1 h2, where lib = example_env and self = "init ''db''"]
  show ?thesis
    by (intro conjI h1 h2 n1 n2 T [THEN conjunct1, THEN mp, OF n1]
          T [THEN conjunct2, THEN mp, OF n2])
qed



text \<open>
  Claim C10 as it is stated fails for \<open>transform_data\<close>: the formula of a calculate
  transform is evaluated with the caller's dataset in scope under the name \<^verbatim>\<open>df\<close>, and a
  formula such as \<^verbatim>\<open>df.pop('qty')\<close> changes it: after the call the dataset that was passed
  in has lost its column \<open>qty\<close>.
\<close>

theorem formula_can_change_the_input:
  "columns (fst (snd (transform_data example_env (init ''db'') [orders] 0
       [(''total'', calculate pop_formula)])) ! 0)
     = [(''price'', Int64), (''total'', Int64), (''name'', Object)]
   \<and> columns ([orders] ! 0)
     = [(''price'', Int64), (''qty'', Int64), (''total'', Int64), (''name'', Object)]"
  by code_simp

text \<open>
  Claim C10, amended. \<open>clean_data\<close> and \<open>validate_data\<close> never change the dataset they are
  given and return a dataset of their own; \<open>transform_data\<close> works on a copy, and leaves
  the dataset it is given as it was whenever no formula of a calculate transform makes a
  call (only a formula that itself changes the caller's dataset can change it).
\<close>

theorem input_dataset_is_left_alone:
  assumes "df < length st"
  shows "(case clean_data st df of (st', logs, v) \<Rightarrow> st' ! df = st ! df \<and> length st \<le> v)
       \<and> (case validate_data lib st df rules of
            (st', logs, r) \<Rightarrow> st' ! df = st ! df \<and> (\<forall>v. r = Inr v \<longrightarrow> length st \<le> v))
       \<and> (formulas_call_free transformations \<longrightarrow>
            (case transform_data lib self st df transformations of
               (self', st', logs, r) \<Rightarrow>
                 st' ! df = st ! df \<and> (\<forall>v. r = Inr v \<longrightarrow> length st \<le> v)))"
proof (intro conjI impI)
  show "case clean_data st df of (st', logs, v) \<Rightarrow> st' ! df = st ! df \<and> length st \<le> v"
    using assms by (simp add: clean_data_def alloc_def Let_def nth_append)
next
  obtain st' logs' r where
    loop: "validate_loop lib rules (st @ [st ! df]) (length st) [(INFO, Validating)]
             = (st', logs', r)"
    by (cases "validate_loop lib rules (st @ [st ! df]) (length st) [(INFO, Validating)]") auto
  note a = validate_loop_appends [OF loop]
  from a obtain ys where ys: "st' = (st @ [st ! df]) @ ys"
    by blast
  from a have v: "\<forall>v'. r = Inr v' \<longrightarrow> length st \<le> v'"
    by auto
  have "st' ! df = st ! df"
    using ys assms by (simp add: nth_append)
  then show "case validate_data lib st df rules of
            (st', logs, r) \<Rightarrow> st' ! df = st ! df \<and> (\<forall>v. r = Inr v \<longrightarrow> length st \<le> v)"
    using loop v by (auto simp: validate_data_def alloc_def split: sum.splits)
next
  assume cf: "formulas_call_free transformations"
  obtain st' logs' r where
    loop: "transform_loop lib transformations df (length st) (st @ [st ! df]) [(INFO, Transforming)]
             = (st', logs', r)"
    by (cases "transform_loop lib transformations df (length st) (st @ [st ! df])
                 [(INFO, Transforming)]") auto
  from transform_loop_frame [OF cf loop] assms
  have "st' ! df = st ! df"
    by (simp add: nth_append)
  then show "case transform_data lib self st df transformations of
               (self', st', logs, r) \<Rightarrow>
                 st' ! df = st ! df \<and> (\<forall>v. r = Inr v \<longrightarrow> length st \<le> v)"
    using loop by (auto simp: transform_data_def alloc_def split: option.splits)
qed

theorem input_dataset_is_left_alone_witness:
  "0 < length [orders]
   \<and> formulas_call_free [(''total'', calculate product_formula)]
   \<and> fst (clean_data [orders] 0) ! 0 = [orders] ! 0
   \<and> fst (validate_data example_env [orders] 0 [(''price'', range_rule 11 20)]) ! 0
       = [orders] ! 0
   \<and> fst (snd (transform_data example_env (init ''db'') [orders] 0
         [(''total'', calculate product_formula)])) ! 0
       = [orders] ! 0"
proof -
  have h: "0 < length [orders]"
    by simp
  have cf: "formulas_call_free [(''total'', calculate product_formula)]"
    by (simp add: formulas_call_free_def calculate_def rule_of_kind_def product_formula_def)
  note T = input_dataset_is_left_alone
    [OF h, where lib = example_env and self = "init ''db''"
       and rules = "[(''price'', range_rule 11 20)]"
       and transformations = "[(''total'', calculate product_formula)]"]
  have c: "fst (clean_data [orders] 0) ! 0 = [orders] ! 0"
    using T [THEN conjunct1] by (simp split: prod.splits)
  have v: "fst (validate_data example_env [orders] 0 [(''price'', range_rule 11 20)]) ! 0
       = [orders] ! 0"
    using T [THEN conjunct2, THEN conjunct1] by (simp split: prod.splits)
  have t: "fst (snd (transform_data example_env (init ''db'') [orders] 0
         [(''total'', calculate product_formula)])) ! 0
       = [orders] ! 0"
    using T [THEN conjunct2, THEN conjunct2, THEN mp, OF cf] by (simp split: prod.splits)
  show ?thesis
    by (intro conjI h cf c v t)
qed







end
